theory Spec2Isabelle
  imports Main "HOL-Library.Word"
begin

section \<open>JavaScript values\<close>

text \<open>
  The handlers of the server receive parsed JSON, pass it to the client libraries of the
  store, the hasher and the transcription provider, and hand an object to \<open>res.json\<close>.
  The values they touch are modelled by one datatype. \<open>JUndefined\<close> is the value of a
  property that is not there. Strings are lists of characters; the only string the code
  inspects is the user id, against a pattern of ASCII characters.
\<close>

datatype json =
    JUndefined
  | JNull
  | JBool bool
  | JNum int
  | JStr string
  | JArr "json list"
  | JObj "(string \<times> json) list"

text \<open>What \<open>if (v)\<close>, \<open>!v\<close> and \<open>v || w\<close> test.\<close>

fun truthy :: "json \<Rightarrow> bool" where
  "truthy JUndefined = False"
| "truthy JNull = False"
| "truthy (JBool b) = b"
| "truthy (JNum n) = (n \<noteq> 0)"
| "truthy (JStr s) = (s \<noteq> [])"
| "truthy (JArr xs) = True"
| "truthy (JObj kvs) = True"

text \<open>What \<open>v?.k\<close> tests before it reads.\<close>

fun nullish :: "json \<Rightarrow> bool" where
  "nullish JUndefined = True"
| "nullish JNull = True"
| "nullish v = False"

text \<open>\<open>v || w\<close>\<close>

definition js_or :: "json \<Rightarrow> json \<Rightarrow> json" where
  "js_or v w = (if truthy v then v else w)"

text \<open>
  A thrown value, or the error object of a client library: the handlers read nothing of
  it but \<open>error.message\<close>.
\<close>

datatype js_error = Error (message: string)

definition quote :: "string \<Rightarrow> string" where
  "quote s = [CHR 0x27] @ s @ [CHR 0x27]"

definition kind_of :: "json \<Rightarrow> string" where
  "kind_of v = (if v = JNull then ''null'' else ''undefined'')"

text \<open>The TypeError of reading a property of \<open>undefined\<close> or \<open>null\<close>.\<close>

definition read_error :: "json \<Rightarrow> string \<Rightarrow> js_error" where
  "read_error v k =
     Error (''Cannot read properties of '' @ kind_of v @ '' (reading '' @ quote k @ '')'')"

text \<open>
  \<open>v.k\<close> for a value that is not \<open>undefined\<close> or \<open>null\<close>: the property of an object,
  \<open>undefined\<close> for every other value (the code reads no property that a string, a
  number or an array has of its own).
\<close>

definition property :: "json \<Rightarrow> string \<Rightarrow> json" where
  "property v k =
     (case v of
        JObj kvs \<Rightarrow> (case map_of kvs k of Some x \<Rightarrow> x | None \<Rightarrow> JUndefined)
      | _ \<Rightarrow> JUndefined)"

text \<open>\<open>v[0]\<close> for a value that is not \<open>undefined\<close> or \<open>null\<close>.\<close>

definition index0 :: "json \<Rightarrow> json" where
  "index0 v =
     (case v of
        JArr xs \<Rightarrow> (case xs of [] \<Rightarrow> JUndefined | x # _ \<Rightarrow> x)
      | JStr s \<Rightarrow> (case s of [] \<Rightarrow> JUndefined | c # _ \<Rightarrow> JStr [c])
      | JObj kvs \<Rightarrow> (case map_of kvs ''0'' of Some x \<Rightarrow> x | None \<Rightarrow> JUndefined)
      | _ \<Rightarrow> JUndefined)"

section \<open>Requests, responses and the providers\<close>

type_synonym byte = "8 word"

text \<open>
  The file that the multipart middleware puts in \<open>req.file\<close>. The middleware attaches a
  file only for a part that has a file name, so the \<open>originalname\<close> of a file that reaches
  a handler is not empty.
\<close>

record uploaded_file =
  originalname :: string
  mimetype :: string
  buffer :: "byte list"

text \<open>A request with a JSON body (\<open>/signup\<close>, \<open>/login\<close>).\<close>

record json_request =
  body :: json

text \<open>
  A multipart request (\<open>/upload\<close>, \<open>/transcribe\<close>): \<open>req.file\<close> is absent when no
  file came in the field \<open>audio\<close>; \<open>req.body.userId\<close> is a text field, a string when
  present. A field sent more than once, which the middleware would gather in an array, is
  not modelled.
\<close>

record multipart_request =
  req_file :: "uploaded_file option"
  userId :: "string option"

text \<open>
  \<open>res.status(n).json(v)\<close>: the status and the value handed to \<open>res.json\<close>
  (\<open>res.json(v)\<close> alone sends status 200). The payload is that value as the handler
  built it; writing it out as JSON then leaves out a property whose value is \<open>undefined\<close>.
\<close>

record response =
  status :: nat
  payload :: json

definition respond :: "nat \<Rightarrow> json \<Rightarrow> response" where
  "respond n v = \<lparr>status = n, payload = v\<rparr>"

text \<open>What the store's client resolves to: \<open>{ data, error }\<close>.\<close>

record query_result =
  data :: json
  error :: "js_error option"

text \<open>What the transcription client resolves to: \<open>{ result, error }\<close>.\<close>

record transcription_result =
  result :: json
  dg_error :: "js_error option"

text \<open>
  The calls that leave the process, in the order a handler makes them. Logging to the
  console is left out.
\<close>

datatype call =
    SelectUser json
  | BcryptHash json nat
  | BcryptCompare json json
  | InsertUser json
  | StorageUpload json string "byte list" json
  | GetPublicUrl json json
  | TranscribeFile "byte list" json
  | InsertTranscription json
  | SelectTranscriptions string

text \<open>
  The providers are outside the repository. Their answers are parameters: each field
  gives what the call resolves to (\<open>Inr\<close>) or the error it rejects with or throws
  (\<open>Inl\<close>). A handler makes each call at most once, so an answer that depends on the
  arguments alone loses nothing.
\<close>

record env =
  find_user :: "json \<Rightarrow> js_error + query_result"
  bcrypt_hash :: "json \<Rightarrow> nat \<Rightarrow> js_error + string"
  bcrypt_compare :: "json \<Rightarrow> json \<Rightarrow> js_error + bool"
  insert_user :: "json \<Rightarrow> js_error + query_result"
  supabase_bucket :: json
  date_now :: nat
  storage_upload :: "json \<Rightarrow> string \<Rightarrow> byte list \<Rightarrow> json \<Rightarrow> js_error + query_result"
  get_public_url :: "json \<Rightarrow> json \<Rightarrow> js_error + json"
  transcribe_file :: "byte list \<Rightarrow> json \<Rightarrow> js_error + transcription_result"
  insert_transcription :: "json \<Rightarrow> js_error + query_result"
  select_transcriptions :: "string \<Rightarrow> js_error + query_result"

section \<open>Sequencing awaited calls\<close>

text \<open>
  The body of a \<open>try\<close> block either throws (\<open>Inl\<close>) or comes to a value (\<open>Inr\<close>), and
  has made a list of calls by then.
\<close>

type_synonym 'a io = "(js_error + 'a) \<times> call list"

definition return_io :: "'a \<Rightarrow> 'a io" where
  "return_io a = (Inr a, [])"

definition throw_io :: "js_error \<Rightarrow> 'a io" where
  "throw_io e = (Inl e, [])"

text \<open>\<open>await\<close> of a provider call: the call is made, and a rejection is thrown.\<close>

definition await :: "call \<Rightarrow> js_error + 'a \<Rightarrow> 'a io" where
  "await c r = (r, [c])"

definition bind_io :: "'a io \<Rightarrow> ('a \<Rightarrow> 'b io) \<Rightarrow> 'b io" where
  "bind_io m f =
     (case m of
        (Inl e, t) \<Rightarrow> (Inl e, t)
      | (Inr a, t) \<Rightarrow> (case f a of (r, t') \<Rightarrow> (r, t @ t')))"

text \<open>\<open>try { ... } catch (error) { h error }\<close>\<close>

definition try_catch :: "response io \<Rightarrow> (js_error \<Rightarrow> response) \<Rightarrow> response \<times> call list" where
  "try_catch m h = (case m of (Inl e, t) \<Rightarrow> (h e, t) | (Inr r, t) \<Rightarrow> (r, t))"

text \<open>
  \<open>const { k, ... } = v\<close>: throws a TypeError when \<open>v\<close> is \<open>undefined\<close> or \<open>null\<close>.
\<close>

definition destructure :: "string \<Rightarrow> string \<Rightarrow> json \<Rightarrow> json io" where
  "destructure k src v =
     (if nullish v
      then throw_io (Error (''Cannot destructure property '' @ quote k @ '' of '' @ quote src
                            @ '' as it is '' @ kind_of v @ ''.''))
      else return_io v)"

text \<open>\<open>v.k\<close>, throwing on \<open>undefined\<close> and \<open>null\<close>.\<close>

definition get_prop :: "json \<Rightarrow> string \<Rightarrow> json io" where
  "get_prop v k = (if nullish v then throw_io (read_error v k) else return_io (property v k))"

text \<open>\<open>v[0]\<close>, throwing on \<open>undefined\<close> and \<open>null\<close>.\<close>

definition get_index0 :: "json \<Rightarrow> json io" where
  "get_index0 v = (if nullish v then throw_io (read_error v ''0'') else return_io (index0 v))"

section \<open>POST /login\<close>

definition invalid_credentials :: response where
  "invalid_credentials = respond 400 (JObj [(''error'', JStr ''Invalid email or password'')])"

definition post_login :: "env \<Rightarrow> json_request \<Rightarrow> response \<times> call list" where
  "post_login env req =
     try_catch
       (bind_io (destructure ''email'' ''req.body'' (body req)) (\<lambda>b.
          let email = property b ''email''; password = property b ''password'' in
          bind_io (await (SelectUser email) (find_user env email)) (\<lambda>q.
            let user = data q in
            if \<not> truthy user then return_io invalid_credentials
            else
              bind_io (await (BcryptCompare password (property user ''password''))
                         (bcrypt_compare env password (property user ''password''))) (\<lambda>isMatch.
                if \<not> isMatch then return_io invalid_credentials
                else return_io (respond 200 (JObj
                       [(''success'', JBool True),
                        (''message'', JStr ''Login successful!''),
                        (''user'', JObj [(''id'', property user ''id''),
                                         (''email'', property user ''email''),
                                         (''name'', property user ''name'')])]))))))
       (\<lambda>error. respond 500 (JObj [(''error'', JStr ''Error during login''),
                                    (''details'', JStr (message error))]))"

section \<open>POST /signup\<close>

text \<open>The argument of the insert into \<open>users\<close>: an array of one row.\<close>

definition user_rows :: "json \<Rightarrow> string \<Rightarrow> json \<Rightarrow> json" where
  "user_rows email hashedPassword name =
     JArr [JObj [(''email'', email), (''password'', JStr hashedPassword), (''name'', name)]]"

definition post_signup :: "env \<Rightarrow> json_request \<Rightarrow> response \<times> call list" where
  "post_signup env req =
     try_catch
       (bind_io (destructure ''email'' ''req.body'' (body req)) (\<lambda>b.
          let email = property b ''email'';
              password = property b ''password'';
              name = property b ''name'' in
          bind_io (await (SelectUser email) (find_user env email)) (\<lambda>q.
            let existingUser = data q in
            if truthy existingUser
            then return_io (respond 400 (JObj [(''error'', JStr ''User already exists'')]))
            else
              bind_io (await (BcryptHash password 10) (bcrypt_hash env password 10))
                (\<lambda>hashedPassword.
                let rows = user_rows email hashedPassword name in
                bind_io (await (InsertUser rows) (insert_user env rows)) (\<lambda>r.
                  case error r of
                    Some insertError \<Rightarrow> throw_io insertError
                  | None \<Rightarrow>
                      return_io (respond 200 (JObj
                        [(''message'', JStr ''Signup successful!''),
                         (''user'', data r)])))))))
       (\<lambda>error. respond 500 (JObj [(''error'', JStr ''Error during signup''),
                                    (''details'', JStr (message error))]))"

section \<open>POST /upload\<close>

text \<open>The decimal digits of a number, as a template string writes \<open>Date.now()\<close>.\<close>

definition digit_char :: "nat \<Rightarrow> char" where
  "digit_char d = char_of (48 + d)"

fun string_of_nat :: "nat \<Rightarrow> string" where
  "string_of_nat n =
     (if n < 10 then [digit_char n]
      else string_of_nat (n div 10) @ [digit_char (n mod 10)])"

declare string_of_nat.simps [simp del]

text \<open>The key of the blob, \<open>audio/${Date.now()}_${req.file.originalname}\<close>, and the options.\<close>

definition upload_path :: "env \<Rightarrow> uploaded_file \<Rightarrow> string" where
  "upload_path env f = ''audio/'' @ string_of_nat (date_now env) @ ''_'' @ originalname f"

definition upload_options :: "uploaded_file \<Rightarrow> json" where
  "upload_options f = JObj [(''contentType'', JStr (mimetype f))]"

definition post_upload :: "env \<Rightarrow> multipart_request \<Rightarrow> response \<times> call list" where
  "post_upload env req =
     try_catch
       (case req_file req of
          None \<Rightarrow> return_io (respond 400 (JObj [(''error'', JStr ''No file uploaded'')]))
        | Some f \<Rightarrow>
            let bucket = supabase_bucket env;
                path = upload_path env f;
                opts = upload_options f in
            bind_io (await (StorageUpload bucket path (buffer f) opts)
                       (storage_upload env bucket path (buffer f) opts)) (\<lambda>r.
              case error r of
                Some e \<Rightarrow>
                  return_io (respond 500 (JObj [(''error'', JStr ''Failed to upload to Supabase''),
                                                (''details'', JStr (message e))]))
              | None \<Rightarrow>
                  bind_io (get_prop (data r) ''path'') (\<lambda>p.
                  bind_io (await (GetPublicUrl bucket p) (get_public_url env bucket p)) (\<lambda>u.
                  bind_io (destructure ''publicUrl''
                             ''supabase.storage.from(...).getPublicUrl(...)'' u) (\<lambda>u.
                    return_io (respond 200 (JObj
                      [(''message'', JStr ''Audio uploaded successfully!''),
                       (''fileURL'', property u ''publicUrl'')])))))))
       (\<lambda>error. respond 500 (JObj [(''error'', JStr ''Error uploading audio''),
                                    (''details'', JStr (message error))]))"

section \<open>POST /transcribe\<close>

text \<open>
  The pattern \<open>/^[0-9a-fA-F-]{36}$/\<close>: a character class of three ranges and a hyphen,
  taken exactly 36 times from the start of the string, with nothing after it.
\<close>

datatype class_item = CharRange char char | CharLit char

fun in_item :: "class_item \<Rightarrow> char \<Rightarrow> bool" where
  "in_item (CharRange lo hi) c =
     ((of_char lo :: nat) \<le> of_char c \<and> (of_char c :: nat) \<le> of_char hi)"
| "in_item (CharLit x) c = (c = x)"

definition in_class :: "class_item list \<Rightarrow> char \<Rightarrow> bool" where
  "in_class items c = list_ex (\<lambda>i. in_item i c) items"

text \<open>\<open>[cls]{n}\<close> at the head of \<open>s\<close>: the rest of the string when it matches.\<close>

fun match_repeat :: "class_item list \<Rightarrow> nat \<Rightarrow> string \<Rightarrow> string option" where
  "match_repeat cls 0 s = Some s"
| "match_repeat cls (Suc n) [] = None"
| "match_repeat cls (Suc n) (c # s) = (if in_class cls c then match_repeat cls n s else None)"

definition uuid_class :: "class_item list" where
  "uuid_class = [CharRange (CHR ''0'') (CHR ''9''), CharRange (CHR ''a'') (CHR ''f''),
                 CharRange (CHR ''A'') (CHR ''F''), CharLit (CHR ''-'')]"

text \<open>\<open>uuidRegex.test(s)\<close>: \<open>^\<close> fixes the start, \<open>$\<close> leaves nothing over.\<close>

definition uuidRegex_test :: "string \<Rightarrow> bool" where
  "uuidRegex_test s = (match_repeat uuid_class 36 s = Some [])"

text \<open>
  \<open>result?.results?.channels[0]?.alternatives[0]?.transcript\<close>: each \<open>?.\<close> ends the whole
  chain with \<open>undefined\<close> when what is to its left is \<open>undefined\<close> or \<open>null\<close>; the two
  \<open>[0]\<close> are plain reads and throw there.
\<close>

definition extract_transcript :: "json \<Rightarrow> json io" where
  "extract_transcript r =
     (if nullish r then return_io JUndefined
      else
        let results = property r ''results'' in
        if nullish results then return_io JUndefined
        else
          bind_io (get_index0 (property results ''channels'')) (\<lambda>channel.
            if nullish channel then return_io JUndefined
            else
              bind_io (get_index0 (property channel ''alternatives'')) (\<lambda>alternative.
                if nullish alternative then return_io JUndefined
                else return_io (property alternative ''transcript''))))"

text \<open>The options of \<open>transcribeFile\<close>.\<close>

definition deepgram_options :: "uploaded_file \<Rightarrow> json" where
  "deepgram_options f = JObj [(''model'', JStr ''nova-3''),
                              (''smart_format'', JBool True),
                              (''mimetype'', JStr (mimetype f))]"

text \<open>The argument of the insert into \<open>transcriptions\<close>: an array of one row.\<close>

definition transcription_rows :: "string \<Rightarrow> json \<Rightarrow> uploaded_file \<Rightarrow> json" where
  "transcription_rows uid transcript f =
     JArr [JObj [(''user_id'', JStr uid),
                 (''transcript'', transcript),
                 (''file_url'', js_or (JStr (originalname f)) (JStr ''unknown_filename''))]]"

definition post_transcribe :: "env \<Rightarrow> multipart_request \<Rightarrow> response \<times> call list" where
  "post_transcribe env req =
     try_catch
       (case req_file req of
          None \<Rightarrow> return_io (respond 400 (JObj [(''error'', JStr ''No file uploaded'')]))
        | Some f \<Rightarrow>
            (case userId req of
               None \<Rightarrow> return_io (respond 400 (JObj [(''error'', JStr ''User ID is required'')]))
             | Some uid \<Rightarrow>
                 if \<not> truthy (JStr uid)
                 then return_io (respond 400 (JObj [(''error'', JStr ''User ID is required'')]))
                 else if \<not> uuidRegex_test uid
                 then return_io (respond 400
                        (JObj [(''error'', JStr ''Invalid UUID format for userId'')]))
                 else
                   let opts = deepgram_options f in
                   bind_io (await (TranscribeFile (buffer f) opts)
                              (transcribe_file env (buffer f) opts)) (\<lambda>r.
                     if dg_error r \<noteq> None
                     then throw_io (Error ''Failed to transcribe audio.'')
                     else
                       bind_io (extract_transcript (result r)) (\<lambda>t.
                         let transcript = js_or t (JStr ''No transcript available'');
                             rows = transcription_rows uid transcript f in
                         bind_io (await (InsertTranscription rows)
                                    (insert_transcription env rows)) (\<lambda>q.
                           if error q \<noteq> None
                           then throw_io (Error ''Failed to save transcription.'')
                           else return_io (respond 200 (JObj
                                  [(''message'', JStr ''Transcription successful!''),
                                   (''transcript'', transcript),
                                   (''savedTranscription'', data q)])))))))
       (\<lambda>error. respond 500 (JObj [(''error'', JStr ''Error transcribing audio''),
                                    (''details'', JStr (message error))]))"

section \<open>GET /transcriptions/:userId and GET /\<close>

record params_request =
  params_userId :: string

definition get_transcriptions :: "env \<Rightarrow> params_request \<Rightarrow> response \<times> call list" where
  "get_transcriptions env req =
     try_catch
       (let uid = params_userId req in
        if \<not> truthy (JStr uid)
        then return_io (respond 400 (JObj [(''error'', JStr ''User ID is required'')]))
        else
          bind_io (await (SelectTranscriptions uid) (select_transcriptions env uid)) (\<lambda>q.
            case error q of
              Some e \<Rightarrow>
                return_io (respond 500 (JObj [(''error'', JStr ''Database query failed''),
                                              (''details'', JStr (message e))]))
            | None \<Rightarrow>
                return_io (respond 200 (JObj [(''success'', JBool True),
                                              (''transcriptions'', data q)]))))
       (\<lambda>error. respond 500 (JObj [(''error'', JStr ''Internal server error''),
                                    (''details'', JStr (message error))]))"

definition get_root :: "response \<times> call list" where
  "get_root = (respond 200 (JStr ''Server is live and running on port 5500''), [])"

section \<open>Example providers and requests\<close>

text \<open>
  Providers that answer as the hosted services do when all is well: the store has no user,
  reports a lookup of no row as an error beside \<open>data: null\<close>, and answers an insert
  that asks for no row back (no \<open>.select()\<close>) with \<open>data: null\<close>; the hasher refuses
  what is not a string.
\<close>

definition toy_digest :: "string \<Rightarrow> string" where
  "toy_digest s = ''$2a$10$'' @ rev s"

definition example_env :: env where
  "example_env =
     \<lparr>find_user = (\<lambda>email. Inr \<lparr>data = JNull,
          error = Some (Error ''JSON object requested, multiple (or no) rows returned'')\<rparr>),
      bcrypt_hash = (\<lambda>p n. case p of JStr s \<Rightarrow> Inr (toy_digest s)
                            | _ \<Rightarrow> Inl (Error ''Illegal arguments: undefined, number'')),
      bcrypt_compare = (\<lambda>p d. case p of JStr s \<Rightarrow> Inr (d = JStr (toy_digest s))
                               | _ \<Rightarrow> Inl (Error ''Illegal arguments: undefined, string'')),
      insert_user = (\<lambda>rows. Inr \<lparr>data = JNull, error = None\<rparr>),
      supabase_bucket = JStr ''recordings'',
      date_now = 1700000000000,
      storage_upload = (\<lambda>b p buf opts. Inr \<lparr>data = JObj [(''path'', JStr p)], error = None\<rparr>),
      get_public_url = (\<lambda>b p. Inr (JObj [(''data'', JObj [(''publicUrl'', p)])])),
      transcribe_file = (\<lambda>buf opts. Inr \<lparr>result = JObj [(''results'', JObj [(''channels'',
          JArr [JObj [(''alternatives'', JArr [JObj [(''transcript'', JStr ''hello world'')]])]])])],
          dg_error = None\<rparr>),
      insert_transcription = (\<lambda>rows. Inr \<lparr>data = JNull, error = None\<rparr>),
      select_transcriptions = (\<lambda>uid. Inr \<lparr>data = JArr [], error = None\<rparr>)\<rparr>"

definition alice_row :: json where
  "alice_row = JObj [(''id'', JNum 7), (''email'', JStr ''alice@example.org''),
                     (''password'', JStr (toy_digest ''wonderland'')), (''name'', JStr ''Alice'')]"

text \<open>The same providers with one user in the store.\<close>

definition alice_env :: env where
  "alice_env = example_env\<lparr>find_user := (\<lambda>email.
     if email = JStr ''alice@example.org'' then Inr \<lparr>data = alice_row, error = None\<rparr>
     else find_user example_env email)\<rparr>"

definition login_request :: "string \<Rightarrow> string \<Rightarrow> json_request" where
  "login_request e p = \<lparr>body = JObj [(''email'', JStr e), (''password'', JStr p)]\<rparr>"

definition example_file :: uploaded_file where
  "example_file = \<lparr>originalname = ''memo.wav'', mimetype = ''audio/wav'', buffer = [82, 73, 70, 70]\<rparr>"

definition example_uuid :: string where
  "example_uuid = ''123e4567-e89b-12d3-a456-426614174000''"

definition transcribe_request :: "string \<Rightarrow> multipart_request" where
  "transcribe_request uid = \<lparr>req_file = Some example_file, userId = Some uid\<rparr>"


text \<open>
  Transcription providers whose response has no transcript because an array is not there:
  \<open>results\<close> without \<open>channels\<close>, and a first channel without \<open>alternatives\<close>.
\<close>

definition channelless_result :: json where
  "channelless_result = JObj [(''results'', JObj [])]"

definition channelless_env :: env where
  "channelless_env = example_env\<lparr>transcribe_file :=
     (\<lambda>buf opts. Inr \<lparr>result = channelless_result, dg_error = None\<rparr>)\<rparr>"

definition alternativeless_result :: json where
  "alternativeless_result = JObj [(''results'', JObj [(''channels'', JArr [JObj []])])]"

definition alternativeless_env :: env where
  "alternativeless_env = example_env\<lparr>transcribe_file :=
     (\<lambda>buf opts. Inr \<lparr>result = alternativeless_result, dg_error = None\<rparr>)\<rparr>"

text \<open>A transcription provider that hears nothing: one channel, one alternative, empty.\<close>

definition silent_result :: json where
  "silent_result = JObj [(''results'', JObj [(''channels'',
     JArr [JObj [(''alternatives'', JArr [JObj [(''transcript'', JStr [])]])]])])]"

definition silent_env :: env where
  "silent_env = example_env\<lparr>transcribe_file :=
     (\<lambda>buf opts. Inr \<lparr>result = silent_result, dg_error = None\<rparr>)\<rparr>"

text \<open>A transcription provider that reports an error, and a store that reports one at every call.\<close>

definition failing_deepgram_env :: env where
  "failing_deepgram_env = example_env\<lparr>transcribe_file :=
     (\<lambda>buf opts. Inr \<lparr>result = JNull, dg_error = Some (Error ''Rate limit exceeded'')\<rparr>)\<rparr>"

definition failing_store_env :: env where
  "failing_store_env = example_env
     \<lparr>find_user := (\<lambda>email. Inr \<lparr>data = JNull, error = Some (Error ''fetch failed'')\<rparr>),
      insert_user := (\<lambda>rows. Inr \<lparr>data = JNull, error = Some (Error ''permission denied'')\<rparr>),
      storage_upload :=
        (\<lambda>b p buf opts. Inr \<lparr>data = JNull, error = Some (Error ''Bucket not found'')\<rparr>),
      insert_transcription :=
        (\<lambda>rows. Inr \<lparr>data = JNull, error = Some (Error ''permission denied'')\<rparr>),
      select_transcriptions :=
        (\<lambda>uid. Inr \<lparr>data = JNull, error = Some (Error ''connection refused'')\<rparr>)\<rparr>"

text \<open>Providers whose first call rejects, and providers whose last call rejects.\<close>

definition hang_up :: js_error where
  "hang_up = Error ''socket hang up''"

definition rejecting_env :: env where
  "rejecting_env = example_env
     \<lparr>find_user := (\<lambda>email. Inl hang_up),
      storage_upload := (\<lambda>b p buf opts. Inl hang_up),
      transcribe_file := (\<lambda>buf opts. Inl hang_up),
      select_transcriptions := (\<lambda>uid. Inl hang_up)\<rparr>"

definition rejecting_late_env :: env where
  "rejecting_late_env = example_env
     \<lparr>insert_user := (\<lambda>rows. Inl hang_up),
      get_public_url := (\<lambda>b p. Inl hang_up),
      insert_transcription := (\<lambda>rows. Inl hang_up)\<rparr>"

definition login_without_password :: json_request where
  "login_without_password = \<lparr>body = JObj [(''email'', JStr ''alice@example.org'')]\<rparr>"

definition upload_request :: multipart_request where
  "upload_request = \<lparr>req_file = Some example_file, userId = None\<rparr>"

definition list_request :: params_request where
  "list_request = \<lparr>params_userId = example_uuid\<rparr>"

definition hyphens36 :: string where
  "hyphens36 = ''------------------------------------''"

definition hexdigits36 :: string where
  "hexdigits36 = ''0123456789abcdef0123456789ABCDEF0123''"

definition signup_request :: "string \<Rightarrow> string \<Rightarrow> string \<Rightarrow> json_request" where
  "signup_request e p n =
     \<lparr>body = JObj [(''email'', JStr e), (''password'', JStr p), (''name'', JStr n)]\<rparr>"

definition signup_without_password :: json_request where
  "signup_without_password =
     \<lparr>body = JObj [(''email'', JStr ''bob@example.org''), (''name'', JStr ''Bob'')]\<rparr>"

section \<open>Reading a trace and a payload\<close>

fun is_hash_call :: "call \<Rightarrow> bool" where
  "is_hash_call (BcryptHash p n) = True"
| "is_hash_call c = False"

fun is_insert_call :: "call \<Rightarrow> bool" where
  "is_insert_call (InsertUser rows) = True"
| "is_insert_call (InsertTranscription rows) = True"
| "is_insert_call c = False"

fun is_transcribe_call :: "call \<Rightarrow> bool" where
  "is_transcribe_call (TranscribeFile b opts) = True"
| "is_transcribe_call c = False"

fun is_storage_call :: "call \<Rightarrow> bool" where
  "is_storage_call (StorageUpload b p buf opts) = True"
| "is_storage_call (GetPublicUrl b p) = True"
| "is_storage_call c = False"

text \<open>The answer \<open>res.status(500).json({ error: what, details: details })\<close>.\<close>

definition failure :: "string \<Rightarrow> string \<Rightarrow> response" where
  "failure what details =
     \<lparr>status = 500, payload = JObj [(''error'', JStr what), (''details'', JStr details)]\<rparr>"

text \<open>The names of the properties of an object, in the order they were written.\<close>

definition keys :: "json \<Rightarrow> string list" where
  "keys v = (case v of JObj kvs \<Rightarrow> map fst kvs | _ \<Rightarrow> [])"

text \<open>The \<open>file_url\<close> of every transcription row that a trace hands to the store.\<close>

fun file_url_of :: "call \<Rightarrow> json list" where
  "file_url_of (InsertTranscription rows) = [property (index0 rows) ''file_url'']"
| "file_url_of c = []"

definition stored_file_urls :: "call list \<Rightarrow> json list" where
  "stored_file_urls t = concat (map file_url_of t)"

section \<open>The specification's words\<close>

text \<open>A hex digit, as the specification names the characters of a user id.\<close>

definition hex_digit :: "char \<Rightarrow> bool" where
  "hex_digit c = (c \<in> set ''0123456789abcdefABCDEF'')"

text \<open>
  The textual form of a UUID: groups of 8, 4, 4, 4 and 12 hex digits with a hyphen
  between them.
\<close>

definition canonical_uuid :: "string \<Rightarrow> bool" where
  "canonical_uuid s =
     (length s = 36
      \<and> list_all hex_digit (take 8 s) \<and> s ! 8 = CHR ''-''
      \<and> list_all hex_digit (take 4 (drop 9 s)) \<and> s ! 13 = CHR ''-''
      \<and> list_all hex_digit (take 4 (drop 14 s)) \<and> s ! 18 = CHR ''-''
      \<and> list_all hex_digit (take 4 (drop 19 s)) \<and> s ! 23 = CHR ''-''
      \<and> list_all hex_digit (drop 24 s))"

text \<open>
  A provider response with no transcript: the transcript of the first alternative of the
  first channel is absent, for whatever part of the path to it is missing, or empty.
\<close>

definition first_alternative :: "json \<Rightarrow> json" where
  "first_alternative r =
     index0 (property (index0 (property (property r ''results'') ''channels'')) ''alternatives'')"

definition no_transcript :: "json \<Rightarrow> bool" where
  "no_transcript r = (\<not> truthy (property (first_alternative r) ''transcript''))"

text \<open>
  The responses in which the two arrays are there as far as the path is followed: no
  result, no \<open>results\<close>, or \<open>channels\<close> is an array and the first channel, if there is one,
  has an array of \<open>alternatives\<close>.
\<close>

definition arrays_present :: "json \<Rightarrow> bool" where
  "arrays_present r =
     (nullish r \<or> nullish (property r ''results'') \<or>
      (case property (property r ''results'') ''channels'' of
         JArr [] \<Rightarrow> True
       | JArr (ch # chs) \<Rightarrow>
           nullish ch \<or> (case property ch ''alternatives'' of JArr as \<Rightarrow> True | _ \<Rightarrow> False)
       | _ \<Rightarrow> False))"

section \<open>Properties\<close>

lemmas io_defs = return_io_def throw_io_def await_def bind_io_def try_catch_def
  destructure_def get_prop_def get_index0_def


text \<open>
  C1. On \<open>POST /login\<close>, a lookup that finds no user and a lookup that finds a user whose
  password fails verification are answered alike: status 400 and the body
  \<open>{error: 'Invalid email or password'}\<close>.
\<close>

theorem login_failures_indistinguishable:
  assumes "\<not> nullish (body req1)" and "\<not> nullish (body req2)"
    and "find_user env1 (property (body req1) ''email'') = Inr q1" and "\<not> truthy (data q1)"
    and "find_user env2 (property (body req2) ''email'') = Inr q2" and "truthy (data q2)"
    and "bcrypt_compare env2 (property (body req2) ''password'') (property (data q2) ''password'')
           = Inr False"
  shows "fst (post_login env1 req1) = fst (post_login env2 req2)
       \<and> fst (post_login env1 req1)
           = \<lparr>status = 400, payload = JObj [(''error'', JStr ''Invalid email or password'')]\<rparr>"
  using assms by (simp add: post_login_def io_defs invalid_credentials_def respond_def)

theorem login_failures_indistinguishable_witness:
  "fst (post_login example_env (login_request ''bob@example.org'' ''secret''))
     = fst (post_login alice_env (login_request ''alice@example.org'' ''looking-glass''))
   \<and> fst (post_login example_env (login_request ''bob@example.org'' ''secret''))
     = \<lparr>status = 400, payload = JObj [(''error'', JStr ''Invalid email or password'')]\<rparr>"
  by (rule login_failures_indistinguishable
        [where ?q1.0 = "\<lparr>data = JNull,
            error = Some (Error ''JSON object requested, multiple (or no) rows returned'')\<rparr>"
         and ?q2.0 = "\<lparr>data = alice_row, error = None\<rparr>"])
     (simp_all add: login_request_def example_env_def alice_env_def alice_row_def
        property_def toy_digest_def)

text \<open>
  C7. A \<open>POST /signup\<close> whose email already has a user record in the store is answered
  with status 400 and \<open>{error: 'User already exists'}\<close>; the lookup is the only call
  made: no hash is computed and nothing is inserted.
\<close>

theorem signup_existing_user_rejected:
  assumes "\<not> nullish (body req)"
    and "find_user env (property (body req) ''email'') = Inr q"
    and "truthy (data q)"
  shows "post_signup env req =
           (\<lparr>status = 400, payload = JObj [(''error'', JStr ''User already exists'')]\<rparr>,
            [SelectUser (property (body req) ''email'')])
       \<and> \<not> list_ex is_hash_call (snd (post_signup env req))
       \<and> \<not> list_ex is_insert_call (snd (post_signup env req))"
  using assms by (simp add: post_signup_def io_defs respond_def)

theorem signup_existing_user_rejected_witness:
  "post_signup alice_env (signup_request ''alice@example.org'' ''rabbit'' ''Alice II'') =
     (\<lparr>status = 400, payload = JObj [(''error'', JStr ''User already exists'')]\<rparr>,
      [SelectUser (JStr ''alice@example.org'')])
   \<and> \<not> list_ex is_hash_call
         (snd (post_signup alice_env (signup_request ''alice@example.org'' ''rabbit'' ''Alice II'')))
   \<and> \<not> list_ex is_insert_call
         (snd (post_signup alice_env (signup_request ''alice@example.org'' ''rabbit'' ''Alice II'')))"
proof -
  let ?req = "signup_request ''alice@example.org'' ''rabbit'' ''Alice II''"
  have email: "property (body ?req) ''email'' = JStr ''alice@example.org''"
    by (simp add: signup_request_def property_def)
  have b: "\<not> nullish (body ?req)"
    by (simp add: signup_request_def)
  have f: "find_user alice_env (property (body ?req) ''email'')
             = Inr \<lparr>data = alice_row, error = None\<rparr>"
    by (simp add: email alice_env_def)
  have t: "truthy (data \<lparr>data = alice_row, error = None\<rparr>)"
    by (simp add: alice_row_def)
  show ?thesis
    using signup_existing_user_rejected [OF b f t] by (simp add: email)
qed

text \<open>
  C8. A \<open>POST /login\<close> answered with status 200 carries a \<open>user\<close> object with the
  properties \<open>id\<close>, \<open>email\<close> and \<open>name\<close> of the matched record and no other; the
  stored digest, the record's \<open>password\<close>, is not among them.
\<close>

theorem login_success_body:
  assumes "status (fst (post_login env req)) = 200"
  shows "\<exists>q. find_user env (property (body req) ''email'') = Inr q
            \<and> truthy (data q)
            \<and> property (payload (fst (post_login env req))) ''user''
                = JObj [(''id'', property (data q) ''id''),
                        (''email'', property (data q) ''email''),
                        (''name'', property (data q) ''name'')]
            \<and> keys (property (payload (fst (post_login env req))) ''user'')
                = [''id'', ''email'', ''name'']
            \<and> ''password'' \<notin> set (keys (property (payload (fst (post_login env req))) ''user''))"
  using assms
  by (auto simp add: post_login_def io_defs respond_def invalid_credentials_def Let_def
        property_def keys_def split: sum.splits if_splits)

theorem login_success_body_witness:
  "status (fst (post_login alice_env (login_request ''alice@example.org'' ''wonderland''))) = 200
   \<and> property (payload (fst (post_login alice_env
          (login_request ''alice@example.org'' ''wonderland'')))) ''user''
       = JObj [(''id'', JNum 7), (''email'', JStr ''alice@example.org''), (''name'', JStr ''Alice'')]
   \<and> keys (property (payload (fst (post_login alice_env
          (login_request ''alice@example.org'' ''wonderland'')))) ''user'')
       = [''id'', ''email'', ''name'']"
proof -
  let ?req = "login_request ''alice@example.org'' ''wonderland''"
  have r: "fst (post_login alice_env ?req) =
             \<lparr>status = 200, payload = JObj
               [(''success'', JBool True), (''message'', JStr ''Login successful!''),
                (''user'', JObj [(''id'', JNum 7), (''email'', JStr ''alice@example.org''),
                                 (''name'', JStr ''Alice'')])]\<rparr>"
    by (simp add: post_login_def io_defs respond_def login_request_def alice_env_def
          example_env_def alice_row_def property_def Let_def)
  have h: "status (fst (post_login alice_env ?req)) = 200"
    by (simp add: r)
  have k: "keys (property (payload (fst (post_login alice_env ?req))) ''user'')
             = [''id'', ''email'', ''name'']"
    using login_success_body [OF h] by (elim exE conjE)
  have u: "property (payload (fst (post_login alice_env ?req))) ''user''
       = JObj [(''id'', JNum 7), (''email'', JStr ''alice@example.org''), (''name'', JStr ''Alice'')]"
    by (simp add: r property_def)
  from h u k show ?thesis
    by (intro conjI)
qed




text \<open>
  C10. \<open>POST /signup\<close> does not check that its fields are there. With no \<open>password\<close>
  in the body and no user found for the email, the answer is never status 400; when the
  hasher rejects the absent password, the \<open>catch\<close> block answers with status 500 and the
  hasher's message, and nothing is inserted.
\<close>

theorem signup_missing_password:
  assumes "property (body req) ''password'' = JUndefined"
    and "\<forall>q. find_user env (property (body req) ''email'') = Inr q \<longrightarrow> \<not> truthy (data q)"
  shows "status (fst (post_signup env req)) \<noteq> 400
       \<and> (\<not> nullish (body req)
            \<and> find_user env (property (body req) ''email'') = Inr q
            \<and> bcrypt_hash env JUndefined 10 = Inl e \<longrightarrow>
            post_signup env req =
              (\<lparr>status = 500, payload = JObj [(''error'', JStr ''Error during signup''),
                                              (''details'', JStr (message e))]\<rparr>,
               [SelectUser (property (body req) ''email''), BcryptHash JUndefined 10]))"
  using assms
  by (auto simp add: post_signup_def io_defs respond_def Let_def
        split: sum.splits if_splits option.splits)

theorem signup_missing_password_witness:
  "status (fst (post_signup example_env signup_without_password)) \<noteq> 400
   \<and> post_signup example_env signup_without_password =
       (\<lparr>status = 500, payload = JObj [(''error'', JStr ''Error during signup''),
          (''details'', JStr ''Illegal arguments: undefined, number'')]\<rparr>,
        [SelectUser (JStr ''bob@example.org''), BcryptHash JUndefined 10])"
proof -
  let ?req = "signup_without_password"
  let ?none = "\<lparr>data = JNull,
      error = Some (Error ''JSON object requested, multiple (or no) rows returned'')\<rparr>"
  have p: "property (body ?req) ''password'' = JUndefined"
    by (simp add: signup_without_password_def property_def)
  have m: "property (body ?req) ''email'' = JStr ''bob@example.org''"
    by (simp add: signup_without_password_def property_def)
  have f: "find_user example_env (property (body ?req) ''email'') = Inr ?none"
    by (simp add: example_env_def)
  have t: "\<forall>q. find_user example_env (property (body ?req) ''email'') = Inr q
             \<longrightarrow> \<not> truthy (data q)"
    by (auto simp add: f)
  have b: "\<not> nullish (body ?req)"
    by (simp add: signup_without_password_def)
  have e: "bcrypt_hash example_env JUndefined 10
             = Inl (Error ''Illegal arguments: undefined, number'')"
    by (simp add: example_env_def)
  show ?thesis
    using signup_missing_password [OF p t, of ?none
            "Error ''Illegal arguments: undefined, number''"] b f e
    by (simp add: m)
qed

subsection \<open>The user id check\<close>

lemma match_repeat_iff:
  "match_repeat cls n s = Some [] \<longleftrightarrow> length s = n \<and> list_all (in_class cls) s"
  by (induction cls n s rule: match_repeat.induct) auto

lemma in_uuid_class_iff: "in_class uuid_class c \<longleftrightarrow> hex_digit c \<or> c = CHR ''-''"
  apply (cases c)
  subgoal for x1 x2 x3 x4 x5 x6 x7 x8
    by (cases x1; cases x2; cases x3; cases x4; cases x5; cases x6; cases x7; cases x8;
        simp add: in_class_def uuid_class_def hex_digit_def)
  done

lemma uuidRegex_test_iff:
  "uuidRegex_test s \<longleftrightarrow> length s = 36 \<and> (\<forall>c \<in> set s. hex_digit c \<or> c = CHR ''-'')"
  by (simp add: uuidRegex_test_def match_repeat_iff in_uuid_class_iff list_all_iff)

lemma uuidRegex_test_nonempty: "uuidRegex_test s \<Longrightarrow> s \<noteq> []"
  by (auto simp add: uuidRegex_test_iff)

lemma transcribe_rejects:
  assumes "req_file req = Some f"
    and "case userId req of None \<Rightarrow> True | Some u \<Rightarrow> \<not> uuidRegex_test u"
  shows "status (fst (post_transcribe env req)) = 400 \<and> snd (post_transcribe env req) = []"
  using assms
  by (auto simp add: post_transcribe_def io_defs respond_def split: option.splits)

lemma transcribe_calls_provider:
  assumes "req_file req = Some f" and "userId req = Some uid" and "uuidRegex_test uid"
  shows "\<exists>rest. snd (post_transcribe env req)
            = TranscribeFile (buffer f) (deepgram_options f) # rest"
  using assms uuidRegex_test_nonempty [OF assms(3)]
  by (cases "transcribe_file env (buffer f) (deepgram_options f)")
     (auto simp add: post_transcribe_def io_defs respond_def Let_def split: prod.splits sum.splits)

text \<open>
  C4. On \<open>POST /transcribe\<close> with a file, the answer is status 400 with no call to the
  transcription provider exactly when the user id is missing or is not 36 characters that
  are each a hex digit or a hyphen. The pattern rejects \<open>abc\<close> and accepts
  \<open>123e4567-e89b-12d3-a456-426614174000\<close>.
\<close>

theorem transcribe_userId_check:
  assumes "req_file req = Some f"
  shows "((status (fst (post_transcribe env req)) = 400
           \<and> \<not> list_ex is_transcribe_call (snd (post_transcribe env req)))
          \<longleftrightarrow> (case userId req of
                 None \<Rightarrow> True
               | Some u \<Rightarrow> \<not> (length u = 36 \<and> (\<forall>c \<in> set u. hex_digit c \<or> c = CHR ''-''))))
       \<and> \<not> uuidRegex_test ''abc''
       \<and> uuidRegex_test ''123e4567-e89b-12d3-a456-426614174000''"
proof (intro conjI)
  show "(status (fst (post_transcribe env req)) = 400
           \<and> \<not> list_ex is_transcribe_call (snd (post_transcribe env req)))
          \<longleftrightarrow> (case userId req of
                 None \<Rightarrow> True
               | Some u \<Rightarrow> \<not> (length u = 36 \<and> (\<forall>c \<in> set u. hex_digit c \<or> c = CHR ''-'')))"
  proof (cases "case userId req of None \<Rightarrow> True | Some u \<Rightarrow> \<not> uuidRegex_test u")
    case True
    from transcribe_rejects [OF assms True, of env] True show ?thesis
      by (auto simp add: uuidRegex_test_iff split: option.splits)
  next
    case False
    then obtain uid where u: "userId req = Some uid" "uuidRegex_test uid"
      by (auto split: option.splits)
    from transcribe_calls_provider [OF assms u, of env] u show ?thesis
      by (auto simp add: uuidRegex_test_iff)
  qed
  show "\<not> uuidRegex_test ''abc''"
    by (simp add: uuidRegex_test_iff)
  show "uuidRegex_test ''123e4567-e89b-12d3-a456-426614174000''"
    by (simp add: uuidRegex_test_iff hex_digit_def)
qed

theorem transcribe_userId_check_witness:
  "status (fst (post_transcribe example_env (transcribe_request ''abc''))) = 400
   \<and> \<not> list_ex is_transcribe_call (snd (post_transcribe example_env (transcribe_request ''abc'')))"
proof -
  have f: "req_file (transcribe_request ''abc'') = Some example_file"
    by (simp add: transcribe_request_def)
  from transcribe_userId_check [OF f, of example_env] show ?thesis
    by (simp add: transcribe_request_def)
qed

text \<open>
  C9. The check looks at length and characters only. A string of 36 hyphens and a string of
  36 hex digits are not UUIDs in form, yet the pattern accepts both and the handler goes on
  to call the transcription provider, whatever the providers answer.
\<close>

theorem format_check_admits_non_uuids:
  "\<not> canonical_uuid hyphens36 \<and> uuidRegex_test hyphens36
   \<and> list_ex is_transcribe_call (snd (post_transcribe env (transcribe_request hyphens36)))
   \<and> \<not> canonical_uuid hexdigits36 \<and> uuidRegex_test hexdigits36
   \<and> list_ex is_transcribe_call (snd (post_transcribe env (transcribe_request hexdigits36)))"
proof -
  have h: "uuidRegex_test hyphens36" "uuidRegex_test hexdigits36"
    by (simp_all add: uuidRegex_test_iff hyphens36_def hexdigits36_def hex_digit_def)
  have n: "\<not> canonical_uuid hyphens36" "\<not> canonical_uuid hexdigits36"
    by (simp_all add: canonical_uuid_def hyphens36_def hexdigits36_def hex_digit_def)
  have f: "req_file (transcribe_request u) = Some example_file"
      "userId (transcribe_request u) = Some u" for u
    by (simp_all add: transcribe_request_def)
  from transcribe_calls_provider [OF f h(1), of env]
  have c1: "list_ex is_transcribe_call (snd (post_transcribe env (transcribe_request hyphens36)))"
    by auto
  from transcribe_calls_provider [OF f h(2), of env]
  have c2: "list_ex is_transcribe_call (snd (post_transcribe env (transcribe_request hexdigits36)))"
    by auto
  from h n c1 c2 show ?thesis
    by (intro conjI)
qed

subsection \<open>The transcript and the stored row\<close>

lemma extract_transcript_no_calls: "extract_transcript r = (v, t) \<Longrightarrow> t = []"
  by (auto simp add: extract_transcript_def io_defs Let_def split: if_splits)

lemma no_transcript_extract:
  assumes "arrays_present r" and "no_transcript r"
  shows "\<exists>v. extract_transcript r = (Inr v, []) \<and> \<not> truthy v"
proof (cases "nullish r \<or> nullish (property r ''results'')")
  case True
  then show ?thesis
    by (auto simp add: extract_transcript_def io_defs Let_def)
next
  case False
  with assms show ?thesis
    by (auto simp add: arrays_present_def no_transcript_def first_alternative_def
          extract_transcript_def io_defs index0_def Let_def
          split: json.splits list.splits if_splits)
qed

text \<open>
  Where the arrays are there, the chain of line 148 does what it is written for: a
  response with no transcript makes the handler hand the store a row whose transcript is
  \<open>No transcript available\<close>, and when the store takes the row the answer is status 200
  with that transcript.
\<close>

lemma transcribe_fallback_when_arrays_present:
  assumes "req_file req = Some f" and "userId req = Some uid" and "uuidRegex_test uid"
    and "transcribe_file env (buffer f) (deepgram_options f) = Inr r"
    and "dg_error r = None" and "arrays_present (result r)" and "no_transcript (result r)"
  shows "snd (post_transcribe env req) =
           [TranscribeFile (buffer f) (deepgram_options f),
            InsertTranscription (transcription_rows uid (JStr ''No transcript available'') f)]
       \<and> property (index0 (transcription_rows uid (JStr ''No transcript available'') f))
            ''transcript'' = JStr ''No transcript available''
       \<and> (insert_transcription env (transcription_rows uid (JStr ''No transcript available'') f)
             = Inr q \<and> error q = None \<longrightarrow>
           fst (post_transcribe env req) =
             \<lparr>status = 200, payload = JObj
                [(''message'', JStr ''Transcription successful!''),
                 (''transcript'', JStr ''No transcript available''),
                 (''savedTranscription'', data q)]\<rparr>)"
proof -
  from no_transcript_extract [OF assms(6,7)] obtain v where
    v: "extract_transcript (result r) = (Inr v, [])" "\<not> truthy v"
    by blast
  have u: "uid \<noteq> []"
    using assms(3) by (rule uuidRegex_test_nonempty)
  show ?thesis
    using assms(1,2,3,4,5) v u
    by (cases "insert_transcription env (transcription_rows uid (JStr ''No transcript available'') f)")
       (simp_all add: post_transcribe_def io_defs respond_def Let_def js_or_def
          transcription_rows_def index0_def property_def)
qed

lemma example_uuid_passes: "uuidRegex_test example_uuid" "example_uuid \<noteq> []"
  by (simp_all add: uuidRegex_test_iff hex_digit_def example_uuid_def)

lemma silent_run:
  "no_transcript silent_result
   \<and> post_transcribe silent_env (transcribe_request example_uuid) =
     (\<lparr>status = 200, payload = JObj
        [(''message'', JStr ''Transcription successful!''),
         (''transcript'', JStr ''No transcript available''),
         (''savedTranscription'', JNull)]\<rparr>,
      [TranscribeFile (buffer example_file) (deepgram_options example_file),
       InsertTranscription
         (transcription_rows example_uuid (JStr ''No transcript available'') example_file)])"
proof -
  let ?req = "transcribe_request example_uuid"
  let ?rows = "transcription_rows example_uuid (JStr ''No transcript available'') example_file"
  have f: "req_file ?req = Some example_file" and i: "userId ?req = Some example_uuid"
    by (simp_all add: transcribe_request_def)
  have t: "transcribe_file silent_env (buffer example_file) (deepgram_options example_file)
             = Inr \<lparr>result = silent_result, dg_error = None\<rparr>"
    by (simp add: silent_env_def)
  have e: "dg_error \<lparr>result = silent_result, dg_error = None\<rparr> = None"
    by simp
  have n: "no_transcript silent_result"
    by (simp add: no_transcript_def first_alternative_def silent_result_def property_def
          index0_def)
  have a: "arrays_present (result \<lparr>result = silent_result, dg_error = None\<rparr>)"
    by (simp add: arrays_present_def silent_result_def property_def)
  have n': "no_transcript (result \<lparr>result = silent_result, dg_error = None\<rparr>)"
    using n by simp
  have s: "insert_transcription silent_env ?rows = Inr \<lparr>data = JNull, error = None\<rparr>
           \<and> error \<lparr>data = JNull, error = None\<rparr> = None"
    by (simp add: silent_env_def example_env_def)
  from transcribe_fallback_when_arrays_present
         [OF f i example_uuid_passes(1) t e a n', of "\<lparr>data = JNull, error = None\<rparr>"] s
  have "snd (post_transcribe silent_env ?req) =
          [TranscribeFile (buffer example_file) (deepgram_options example_file),
           InsertTranscription ?rows]"
    and "fst (post_transcribe silent_env ?req) =
           \<lparr>status = 200, payload = JObj
              [(''message'', JStr ''Transcription successful!''),
               (''transcript'', JStr ''No transcript available''),
               (''savedTranscription'', JNull)]\<rparr>"
    by simp_all
  with n show ?thesis
    by (simp add: prod_eq_iff)
qed

text \<open>
  C3. The specification has every response with no transcript answered with the text
  \<open>No transcript available\<close>, stored and returned with status 200. The handler does not
  do so where an array on the way to the transcript is missing: \<open>channels[0]\<close> and
  \<open>alternatives[0]\<close> are read with no \<open>?.\<close> before the index, the read throws, and the
  answer is status 500 with the TypeError's message; nothing is handed to the store.
\<close>

theorem transcribe_no_transcript_throws:
  "no_transcript channelless_result
   \<and> transcribe_file channelless_env (buffer example_file) (deepgram_options example_file)
       = Inr \<lparr>result = channelless_result, dg_error = None\<rparr>
   \<and> post_transcribe channelless_env (transcribe_request example_uuid) =
       (failure ''Error transcribing audio'' (message (read_error JUndefined ''0'')),
        [TranscribeFile (buffer example_file) (deepgram_options example_file)])
   \<and> \<not> list_ex is_insert_call
         (snd (post_transcribe channelless_env (transcribe_request example_uuid)))
   \<and> no_transcript alternativeless_result
   \<and> transcribe_file alternativeless_env (buffer example_file) (deepgram_options example_file)
       = Inr \<lparr>result = alternativeless_result, dg_error = None\<rparr>
   \<and> post_transcribe alternativeless_env (transcribe_request example_uuid) =
       (failure ''Error transcribing audio'' (message (read_error JUndefined ''0'')),
        [TranscribeFile (buffer example_file) (deepgram_options example_file)])
   \<and> \<not> list_ex is_insert_call
         (snd (post_transcribe alternativeless_env (transcribe_request example_uuid)))"
proof -
  have n: "no_transcript channelless_result" "no_transcript alternativeless_result"
    by (simp_all add: no_transcript_def first_alternative_def channelless_result_def
          alternativeless_result_def property_def index0_def)
  have x: "extract_transcript channelless_result = (Inl (read_error JUndefined ''0''), [])"
      "extract_transcript alternativeless_result = (Inl (read_error JUndefined ''0''), [])"
    by (simp_all add: extract_transcript_def io_defs property_def index0_def Let_def
          channelless_result_def alternativeless_result_def)
  have t: "transcribe_file channelless_env (buffer example_file) (deepgram_options example_file)
       = Inr \<lparr>result = channelless_result, dg_error = None\<rparr>"
      "transcribe_file alternativeless_env (buffer example_file) (deepgram_options example_file)
       = Inr \<lparr>result = alternativeless_result, dg_error = None\<rparr>"
    by (simp_all add: channelless_env_def alternativeless_env_def)
  have r: "post_transcribe channelless_env (transcribe_request example_uuid) =
       (failure ''Error transcribing audio'' (message (read_error JUndefined ''0'')),
        [TranscribeFile (buffer example_file) (deepgram_options example_file)])"
      "post_transcribe alternativeless_env (transcribe_request example_uuid) =
       (failure ''Error transcribing audio'' (message (read_error JUndefined ''0'')),
        [TranscribeFile (buffer example_file) (deepgram_options example_file)])"
    by (simp_all add: post_transcribe_def transcribe_request_def example_uuid_passes t x
          io_defs respond_def failure_def Let_def)
  have i: "\<not> list_ex is_insert_call
         (snd (post_transcribe channelless_env (transcribe_request example_uuid)))"
      "\<not> list_ex is_insert_call
         (snd (post_transcribe alternativeless_env (transcribe_request example_uuid)))"
    by (simp_all add: r)
  from n t r i show ?thesis
    by (intro conjI)
qed

lemma transcribe_success_trace:
  assumes "req_file req = Some f" and "status (fst (post_transcribe env req)) = 200"
  shows "\<exists>uid t. snd (post_transcribe env req) =
           [TranscribeFile (buffer f) (deepgram_options f),
            InsertTranscription (transcription_rows uid t f)]"
  using assms
  by (auto simp add: post_transcribe_def io_defs respond_def Let_def
        dest: extract_transcript_no_calls
        split: option.splits if_splits sum.splits prod.splits)

lemma extract_hello_world:
  "extract_transcript (JObj [(''results'', JObj [(''channels'',
          JArr [JObj [(''alternatives'', JArr [JObj [(''transcript'', JStr ''hello world'')]])]])])])
      = (Inr (JStr ''hello world''), [])"
  by (simp add: extract_transcript_def io_defs property_def index0_def Let_def)

lemma memo_run:
  "post_transcribe example_env (transcribe_request example_uuid) =
     (\<lparr>status = 200, payload = JObj
        [(''message'', JStr ''Transcription successful!''),
         (''transcript'', JStr ''hello world''),
         (''savedTranscription'', JNull)]\<rparr>,
      [TranscribeFile (buffer example_file) (deepgram_options example_file),
       InsertTranscription (JArr [JObj [(''user_id'', JStr example_uuid),
         (''transcript'', JStr ''hello world''), (''file_url'', JStr ''memo.wav'')]])])"
  by (simp add: post_transcribe_def transcribe_request_def example_uuid_passes
        extract_hello_world io_defs respond_def Let_def example_env_def js_or_def
        transcription_rows_def example_file_def)

text \<open>
  C5. A \<open>POST /transcribe\<close> answered with status 200 has handed the store one row, whose
  \<open>file_url\<close> is the original name of the uploaded file; it has stored no blob, so the
  field is no URL of one. The file has a name, as every file that the middleware attaches
  has; the \<open>||\<close> of line 158 is then never taken.
\<close>

theorem transcription_file_url:
  assumes "req_file req = Some f" and "originalname f \<noteq> []"
    and "status (fst (post_transcribe env req)) = 200"
  shows "stored_file_urls (snd (post_transcribe env req)) = [JStr (originalname f)]
       \<and> \<not> list_ex is_storage_call (snd (post_transcribe env req))"
proof -
  from transcribe_success_trace [OF assms(1,3)] obtain uid t where
    "snd (post_transcribe env req) =
           [TranscribeFile (buffer f) (deepgram_options f),
            InsertTranscription (transcription_rows uid t f)]"
    by blast
  with assms(2) show ?thesis
    by (simp add: stored_file_urls_def transcription_rows_def index0_def property_def js_or_def)
qed

theorem transcription_file_url_witness:
  "status (fst (post_transcribe example_env (transcribe_request example_uuid))) = 200
   \<and> originalname example_file = ''memo.wav''
   \<and> stored_file_urls (snd (post_transcribe example_env (transcribe_request example_uuid)))
       = [JStr ''memo.wav'']
   \<and> \<not> list_ex is_storage_call
         (snd (post_transcribe example_env (transcribe_request example_uuid)))"
proof -
  have f: "req_file (transcribe_request example_uuid) = Some example_file"
    by (simp add: transcribe_request_def)
  have n: "originalname example_file \<noteq> []"
    by (simp add: example_file_def)
  have h: "status (fst (post_transcribe example_env (transcribe_request example_uuid))) = 200"
    by (simp add: memo_run)
  from transcription_file_url [OF f n h] h show ?thesis
    by (simp add: example_file_def)
qed

subsection \<open>Failing providers\<close>

lemmas run_defs = io_defs respond_def failure_def Let_def

text \<open>
  C2, amended. When a provider call fails, the handler makes the failing call once and
  answers with status 500, but for one case: an error that the user lookup of \<open>/signup\<close>
  or \<open>/login\<close> reports beside its data is not read, so with no user data \<open>/login\<close>
  answers status 400 with \<open>Invalid email or password\<close> and \<open>/signup\<close> goes on to hash and
  insert. In the answers with status 500, the \<open>details\<close> are the provider's message as it
  came where the store reports an error for the insert of \<open>/signup\<close>, the upload of
  \<open>/upload\<close> or the query of \<open>GET /transcriptions/:userId\<close>, and where any call rejects
  or throws. On \<open>/transcribe\<close>, an error that the provider or the store reports is
  answered with the fixed text \<open>Failed to transcribe audio.\<close> or
  \<open>Failed to save transcription.\<close>.
\<close>

theorem downstream_failures:
  "(\<not> nullish (body jreq)
      \<and> find_user env (property (body jreq) ''email'') = Inr q \<and> \<not> truthy (data q)
      \<and> bcrypt_hash env (property (body jreq) ''password'') 10 = Inr h
      \<and> insert_user env (user_rows (property (body jreq) ''email'') h
            (property (body jreq) ''name'')) = Inr r
      \<and> error r = Some e
    \<longrightarrow> post_signup env jreq =
          (failure ''Error during signup'' (message e),
           [SelectUser (property (body jreq) ''email''),
            BcryptHash (property (body jreq) ''password'') 10,
            InsertUser (user_rows (property (body jreq) ''email'') h
              (property (body jreq) ''name''))]))
   \<and> (req_file mreq = Some f
      \<and> storage_upload env (supabase_bucket env) (upload_path env f) (buffer f)
            (upload_options f) = Inr r
      \<and> error r = Some e
    \<longrightarrow> post_upload env mreq =
          (failure ''Failed to upload to Supabase'' (message e),
           [StorageUpload (supabase_bucket env) (upload_path env f) (buffer f)
              (upload_options f)]))
   \<and> (req_file mreq = Some f \<and> userId mreq = Some uid \<and> uuidRegex_test uid
      \<and> transcribe_file env (buffer f) (deepgram_options f) = Inr d
      \<and> dg_error d = Some e
    \<longrightarrow> post_transcribe env mreq =
          (failure ''Error transcribing audio'' ''Failed to transcribe audio.'',
           [TranscribeFile (buffer f) (deepgram_options f)]))
   \<and> (req_file mreq = Some f \<and> userId mreq = Some uid \<and> uuidRegex_test uid
      \<and> transcribe_file env (buffer f) (deepgram_options f) = Inr d
      \<and> dg_error d = None
      \<and> extract_transcript (result d) = (Inr t, [])
      \<and> insert_transcription env
            (transcription_rows uid (js_or t (JStr ''No transcript available'')) f) = Inr r
      \<and> error r = Some e
    \<longrightarrow> post_transcribe env mreq =
          (failure ''Error transcribing audio'' ''Failed to save transcription.'',
           [TranscribeFile (buffer f) (deepgram_options f),
            InsertTranscription
              (transcription_rows uid (js_or t (JStr ''No transcript available'')) f)]))
   \<and> (params_userId preq \<noteq> []
      \<and> select_transcriptions env (params_userId preq) = Inr r
      \<and> error r = Some e
    \<longrightarrow> get_transcriptions env preq =
          (failure ''Database query failed'' (message e),
           [SelectTranscriptions (params_userId preq)]))
   \<and> (\<not> nullish (body jreq)
      \<and> find_user env (property (body jreq) ''email'') = Inl e
    \<longrightarrow> post_signup env jreq =
          (failure ''Error during signup'' (message e),
           [SelectUser (property (body jreq) ''email'')])
      \<and> post_login env jreq =
          (failure ''Error during login'' (message e),
           [SelectUser (property (body jreq) ''email'')]))
   \<and> (\<not> nullish (body jreq)
      \<and> find_user env (property (body jreq) ''email'') = Inr q \<and> \<not> truthy (data q)
      \<and> bcrypt_hash env (property (body jreq) ''password'') 10 = Inl e
    \<longrightarrow> post_signup env jreq =
          (failure ''Error during signup'' (message e),
           [SelectUser (property (body jreq) ''email''),
            BcryptHash (property (body jreq) ''password'') 10]))
   \<and> (\<not> nullish (body jreq)
      \<and> find_user env (property (body jreq) ''email'') = Inr q \<and> \<not> truthy (data q)
      \<and> bcrypt_hash env (property (body jreq) ''password'') 10 = Inr h
      \<and> insert_user env (user_rows (property (body jreq) ''email'') h
            (property (body jreq) ''name'')) = Inl e
    \<longrightarrow> post_signup env jreq =
          (failure ''Error during signup'' (message e),
           [SelectUser (property (body jreq) ''email''),
            BcryptHash (property (body jreq) ''password'') 10,
            InsertUser (user_rows (property (body jreq) ''email'') h
              (property (body jreq) ''name''))]))
   \<and> (\<not> nullish (body jreq)
      \<and> find_user env (property (body jreq) ''email'') = Inr q \<and> truthy (data q)
      \<and> bcrypt_compare env (property (body jreq) ''password'')
            (property (data q) ''password'') = Inl e
    \<longrightarrow> post_login env jreq =
          (failure ''Error during login'' (message e),
           [SelectUser (property (body jreq) ''email''),
            BcryptCompare (property (body jreq) ''password'')
              (property (data q) ''password'')]))
   \<and> (req_file mreq = Some f
      \<and> storage_upload env (supabase_bucket env) (upload_path env f) (buffer f)
            (upload_options f) = Inl e
    \<longrightarrow> post_upload env mreq =
          (failure ''Error uploading audio'' (message e),
           [StorageUpload (supabase_bucket env) (upload_path env f) (buffer f)
              (upload_options f)]))
   \<and> (req_file mreq = Some f
      \<and> storage_upload env (supabase_bucket env) (upload_path env f) (buffer f)
            (upload_options f) = Inr r
      \<and> error r = None \<and> \<not> nullish (data r)
      \<and> get_public_url env (supabase_bucket env) (property (data r) ''path'') = Inl e
    \<longrightarrow> post_upload env mreq =
          (failure ''Error uploading audio'' (message e),
           [StorageUpload (supabase_bucket env) (upload_path env f) (buffer f)
              (upload_options f),
            GetPublicUrl (supabase_bucket env) (property (data r) ''path'')]))
   \<and> (req_file mreq = Some f \<and> userId mreq = Some uid \<and> uuidRegex_test uid
      \<and> transcribe_file env (buffer f) (deepgram_options f) = Inl e
    \<longrightarrow> post_transcribe env mreq =
          (failure ''Error transcribing audio'' (message e),
           [TranscribeFile (buffer f) (deepgram_options f)]))
   \<and> (req_file mreq = Some f \<and> userId mreq = Some uid \<and> uuidRegex_test uid
      \<and> transcribe_file env (buffer f) (deepgram_options f) = Inr d
      \<and> dg_error d = None
      \<and> extract_transcript (result d) = (Inr t, [])
      \<and> insert_transcription env
            (transcription_rows uid (js_or t (JStr ''No transcript available'')) f) = Inl e
    \<longrightarrow> post_transcribe env mreq =
          (failure ''Error transcribing audio'' (message e),
           [TranscribeFile (buffer f) (deepgram_options f),
            InsertTranscription
              (transcription_rows uid (js_or t (JStr ''No transcript available'')) f)]))
   \<and> (params_userId preq \<noteq> []
      \<and> select_transcriptions env (params_userId preq) = Inl e
    \<longrightarrow> get_transcriptions env preq =
          (failure ''Internal server error'' (message e),
           [SelectTranscriptions (params_userId preq)]))
   \<and> (\<not> nullish (body jreq)
      \<and> find_user env (property (body jreq) ''email'') = Inr q
      \<and> error q = Some e \<and> \<not> truthy (data q)
    \<longrightarrow> post_login env jreq =
          (\<lparr>status = 400, payload = JObj [(''error'', JStr ''Invalid email or password'')]\<rparr>,
           [SelectUser (property (body jreq) ''email'')]))
   \<and> (\<not> nullish (body jreq)
      \<and> find_user env (property (body jreq) ''email'') = Inr q
      \<and> error q = Some e \<and> \<not> truthy (data q)
      \<and> bcrypt_hash env (property (body jreq) ''password'') 10 = Inr h
      \<and> insert_user env (user_rows (property (body jreq) ''email'') h
            (property (body jreq) ''name'')) = Inr r
      \<and> error r = None
    \<longrightarrow> post_signup env jreq =
          (\<lparr>status = 200, payload = JObj [(''message'', JStr ''Signup successful!''),
                                          (''user'', data r)]\<rparr>,
           [SelectUser (property (body jreq) ''email''),
            BcryptHash (property (body jreq) ''password'') 10,
            InsertUser (user_rows (property (body jreq) ''email'') h
              (property (body jreq) ''name''))]))"
  using uuidRegex_test_nonempty [of uid]
  apply (intro conjI impI)
  subgoal by (simp add: post_signup_def run_defs)
  subgoal by (simp add: post_upload_def run_defs)
  subgoal by (simp add: post_transcribe_def run_defs)
  subgoal by (simp add: post_transcribe_def run_defs)
  subgoal by (simp add: get_transcriptions_def run_defs)
  subgoal by (simp add: post_signup_def run_defs)
  subgoal by (simp add: post_login_def run_defs)
  subgoal by (simp add: post_signup_def run_defs)
  subgoal by (simp add: post_signup_def run_defs)
  subgoal by (simp add: post_login_def run_defs)
  subgoal by (simp add: post_upload_def run_defs)
  subgoal by (simp add: post_upload_def run_defs)
  subgoal by (simp add: post_transcribe_def run_defs)
  subgoal by (simp add: post_transcribe_def run_defs)
  subgoal by (simp add: get_transcriptions_def run_defs)
  subgoal by (simp add: post_login_def run_defs invalid_credentials_def)
  subgoal by (simp add: post_signup_def run_defs)
  done

theorem downstream_failures_witness:
  "post_signup failing_store_env (signup_request ''bob@example.org'' ''secret'' ''Bob'') =
     (failure ''Error during signup'' ''permission denied'',
      [SelectUser (JStr ''bob@example.org''), BcryptHash (JStr ''secret'') 10,
       InsertUser (user_rows (JStr ''bob@example.org'') (toy_digest ''secret'') (JStr ''Bob''))])
   \<and> post_upload failing_store_env upload_request =
     (failure ''Failed to upload to Supabase'' ''Bucket not found'',
      [StorageUpload (JStr ''recordings'') (upload_path failing_store_env example_file)
         (buffer example_file) (upload_options example_file)])
   \<and> post_transcribe failing_deepgram_env (transcribe_request example_uuid) =
     (failure ''Error transcribing audio'' ''Failed to transcribe audio.'',
      [TranscribeFile (buffer example_file) (deepgram_options example_file)])
   \<and> post_transcribe failing_store_env (transcribe_request example_uuid) =
     (failure ''Error transcribing audio'' ''Failed to save transcription.'',
      [TranscribeFile (buffer example_file) (deepgram_options example_file),
       InsertTranscription (transcription_rows example_uuid (JStr ''hello world'') example_file)])
   \<and> get_transcriptions failing_store_env list_request =
     (failure ''Database query failed'' ''connection refused'',
      [SelectTranscriptions example_uuid])
   \<and> post_signup rejecting_env (signup_request ''bob@example.org'' ''secret'' ''Bob'') =
     (failure ''Error during signup'' ''socket hang up'', [SelectUser (JStr ''bob@example.org'')])
   \<and> post_login rejecting_env (signup_request ''bob@example.org'' ''secret'' ''Bob'') =
     (failure ''Error during login'' ''socket hang up'', [SelectUser (JStr ''bob@example.org'')])
   \<and> post_signup example_env signup_without_password =
     (failure ''Error during signup'' ''Illegal arguments: undefined, number'',
      [SelectUser (JStr ''bob@example.org''), BcryptHash JUndefined 10])
   \<and> post_signup rejecting_late_env (signup_request ''bob@example.org'' ''secret'' ''Bob'') =
     (failure ''Error during signup'' ''socket hang up'',
      [SelectUser (JStr ''bob@example.org''), BcryptHash (JStr ''secret'') 10,
       InsertUser (user_rows (JStr ''bob@example.org'') (toy_digest ''secret'') (JStr ''Bob''))])
   \<and> post_login alice_env login_without_password =
     (failure ''Error during login'' ''Illegal arguments: undefined, string'',
      [SelectUser (JStr ''alice@example.org''),
       BcryptCompare JUndefined (JStr (toy_digest ''wonderland''))])
   \<and> post_upload rejecting_env upload_request =
     (failure ''Error uploading audio'' ''socket hang up'',
      [StorageUpload (JStr ''recordings'') (upload_path rejecting_env example_file)
         (buffer example_file) (upload_options example_file)])
   \<and> post_upload rejecting_late_env upload_request =
     (failure ''Error uploading audio'' ''socket hang up'',
      [StorageUpload (JStr ''recordings'') (upload_path rejecting_late_env example_file)
         (buffer example_file) (upload_options example_file),
       GetPublicUrl (JStr ''recordings'') (JStr (upload_path rejecting_late_env example_file))])
   \<and> post_transcribe rejecting_env (transcribe_request example_uuid) =
     (failure ''Error transcribing audio'' ''socket hang up'',
      [TranscribeFile (buffer example_file) (deepgram_options example_file)])
   \<and> post_transcribe rejecting_late_env (transcribe_request example_uuid) =
     (failure ''Error transcribing audio'' ''socket hang up'',
      [TranscribeFile (buffer example_file) (deepgram_options example_file),
       InsertTranscription (transcription_rows example_uuid (JStr ''hello world'') example_file)])
   \<and> get_transcriptions rejecting_env list_request =
     (failure ''Internal server error'' ''socket hang up'', [SelectTranscriptions example_uuid])
   \<and> post_login failing_store_env (login_request ''alice@example.org'' ''wonderland'') =
     (\<lparr>status = 400, payload = JObj [(''error'', JStr ''Invalid email or password'')]\<rparr>,
      [SelectUser (JStr ''alice@example.org'')])
   \<and> post_signup example_env (signup_request ''bob@example.org'' ''secret'' ''Bob'') =
     (\<lparr>status = 200, payload = JObj [(''message'', JStr ''Signup successful!''),
                                     (''user'', JNull)]\<rparr>,
      [SelectUser (JStr ''bob@example.org''), BcryptHash (JStr ''secret'') 10,
       InsertUser (user_rows (JStr ''bob@example.org'') (toy_digest ''secret'') (JStr ''Bob''))])"
proof -
  let ?bob = "signup_request ''bob@example.org'' ''secret'' ''Bob''"
  let ?tr = "transcribe_request example_uuid"
  let ?hello = "JObj [(''results'', JObj [(''channels'',
          JArr [JObj [(''alternatives'', JArr [JObj [(''transcript'', JStr ''hello world'')]])]])])]"
  note envs = example_env_def failing_store_env_def failing_deepgram_env_def rejecting_env_def
    rejecting_late_env_def alice_env_def
  have bob: "\<not> nullish (body ?bob)" "property (body ?bob) ''email'' = JStr ''bob@example.org''"
      "property (body ?bob) ''password'' = JStr ''secret''" "property (body ?bob) ''name'' = JStr ''Bob''"
    by (simp_all add: signup_request_def property_def)
  have nop: "\<not> nullish (body signup_without_password)"
      "property (body signup_without_password) ''email'' = JStr ''bob@example.org''"
      "property (body signup_without_password) ''password'' = JUndefined"
    by (simp_all add: signup_without_password_def property_def)
  have lnp: "\<not> nullish (body login_without_password)"
      "property (body login_without_password) ''email'' = JStr ''alice@example.org''"
      "property (body login_without_password) ''password'' = JUndefined"
    by (simp_all add: login_without_password_def property_def)
  have tr: "req_file ?tr = Some example_file" "userId ?tr = Some example_uuid"
    by (simp_all add: transcribe_request_def)
  have up: "req_file upload_request = Some example_file"
    by (simp add: upload_request_def)
  have ls: "params_userId list_request = example_uuid" "params_userId list_request \<noteq> []"
    by (simp_all add: list_request_def example_uuid_passes)
  have bucket: "supabase_bucket failing_store_env = JStr ''recordings''"
      "supabase_bucket rejecting_env = JStr ''recordings''"
      "supabase_bucket rejecting_late_env = JStr ''recordings''"
    by (simp_all add: envs)
  have alice: "property alice_row ''password'' = JStr (toy_digest ''wonderland'')" "truthy alice_row"
    by (simp_all add: alice_row_def property_def)
  have js: "js_or (JStr ''hello world'') (JStr ''No transcript available'') = JStr ''hello world''"
    by (simp add: js_or_def)
  have c1: "post_signup failing_store_env ?bob =
     (failure ''Error during signup'' ''permission denied'',
      [SelectUser (JStr ''bob@example.org''), BcryptHash (JStr ''secret'') 10,
       InsertUser (user_rows (JStr ''bob@example.org'') (toy_digest ''secret'') (JStr ''Bob''))])"
    using downstream_failures [where jreq = ?bob and env = failing_store_env and q = "\<lparr>data = JNull, error = Some (Error ''fetch failed'')\<rparr>" and h = "toy_digest ''secret''" and r = "\<lparr>data = JNull, error = Some (Error ''permission denied'')\<rparr>" and e = "Error ''permission denied''", THEN conjunct1]
    by (simp add: bob envs)
  have c2: "post_upload failing_store_env upload_request =
     (failure ''Failed to upload to Supabase'' ''Bucket not found'',
      [StorageUpload (JStr ''recordings'') (upload_path failing_store_env example_file)
         (buffer example_file) (upload_options example_file)])"
    using downstream_failures [where mreq = upload_request and env = failing_store_env and f = example_file and r = "\<lparr>data = JNull, error = Some (Error ''Bucket not found'')\<rparr>" and e = "Error ''Bucket not found''", THEN conjunct2, THEN conjunct1]
    by (simp add: up envs)
  have c3: "post_transcribe failing_deepgram_env ?tr =
     (failure ''Error transcribing audio'' ''Failed to transcribe audio.'',
      [TranscribeFile (buffer example_file) (deepgram_options example_file)])"
    using downstream_failures [where mreq = ?tr and env = failing_deepgram_env and f = example_file and uid = example_uuid and d = "\<lparr>result = JNull, dg_error = Some (Error ''Rate limit exceeded'')\<rparr>" and e = "Error ''Rate limit exceeded''", THEN conjunct2, THEN conjunct2, THEN conjunct1]
    by (simp add: tr example_uuid_passes envs)
  have c4: "post_transcribe failing_store_env ?tr =
     (failure ''Error transcribing audio'' ''Failed to save transcription.'',
      [TranscribeFile (buffer example_file) (deepgram_options example_file),
       InsertTranscription (transcription_rows example_uuid (JStr ''hello world'') example_file)])"
    using downstream_failures [where mreq = ?tr and env = failing_store_env and f = example_file and uid = example_uuid and d = "\<lparr>result = ?hello, dg_error = None\<rparr>" and t = "JStr ''hello world''" and r = "\<lparr>data = JNull, error = Some (Error ''permission denied'')\<rparr>" and e = "Error ''permission denied''", THEN conjunct2, THEN conjunct2, THEN conjunct2, THEN conjunct1]
    by (simp add: tr example_uuid_passes extract_hello_world js envs)
  have c5: "get_transcriptions failing_store_env list_request =
     (failure ''Database query failed'' ''connection refused'',
      [SelectTranscriptions example_uuid])"
    using downstream_failures [where preq = list_request and env = failing_store_env and r = "\<lparr>data = JNull, error = Some (Error ''connection refused'')\<rparr>" and e = "Error ''connection refused''", THEN conjunct2, THEN conjunct2, THEN conjunct2, THEN conjunct2, THEN conjunct1]
    by (simp add: ls example_uuid_passes envs)
  have c6: "post_signup rejecting_env ?bob =
     (failure ''Error during signup'' ''socket hang up'', [SelectUser (JStr ''bob@example.org'')])
   \<and> post_login rejecting_env ?bob =
     (failure ''Error during login'' ''socket hang up'', [SelectUser (JStr ''bob@example.org'')])"
    using downstream_failures [where jreq = ?bob and env = rejecting_env and e = hang_up, THEN conjunct2, THEN conjunct2, THEN conjunct2, THEN conjunct2, THEN conjunct2, THEN conjunct1]
    by (simp add: bob envs hang_up_def)
  have c7: "post_signup example_env signup_without_password =
     (failure ''Error during signup'' ''Illegal arguments: undefined, number'',
      [SelectUser (JStr ''bob@example.org''), BcryptHash JUndefined 10])"
    using downstream_failures [where jreq = signup_without_password and env = example_env and q = "\<lparr>data = JNull, error = Some (Error ''JSON object requested, multiple (or no) rows returned'')\<rparr>" and e = "Error ''Illegal arguments: undefined, number''", THEN conjunct2, THEN conjunct2, THEN conjunct2, THEN conjunct2, THEN conjunct2, THEN conjunct2, THEN conjunct1]
    by (simp add: nop envs)
  have c8: "post_signup rejecting_late_env ?bob =
     (failure ''Error during signup'' ''socket hang up'',
      [SelectUser (JStr ''bob@example.org''), BcryptHash (JStr ''secret'') 10,
       InsertUser (user_rows (JStr ''bob@example.org'') (toy_digest ''secret'') (JStr ''Bob''))])"
    using downstream_failures [where jreq = ?bob and env = rejecting_late_env and q = "\<lparr>data = JNull, error = Some (Error ''JSON object requested, multiple (or no) rows returned'')\<rparr>" and h = "toy_digest ''secret''" and e = hang_up, THEN conjunct2, THEN conjunct2, THEN conjunct2, THEN conjunct2, THEN conjunct2, THEN conjunct2, THEN conjunct2, THEN conjunct1]
    by (simp add: bob envs hang_up_def)
  have c9: "post_login alice_env login_without_password =
     (failure ''Error during login'' ''Illegal arguments: undefined, string'',
      [SelectUser (JStr ''alice@example.org''),
       BcryptCompare JUndefined (JStr (toy_digest ''wonderland''))])"
    using downstream_failures [where jreq = login_without_password and env = alice_env and q = "\<lparr>data = alice_row, error = None\<rparr>" and e = "Error ''Illegal arguments: undefined, string''", THEN conjunct2, THEN conjunct2, THEN conjunct2, THEN conjunct2, THEN conjunct2, THEN conjunct2, THEN conjunct2, THEN conjunct2, THEN conjunct1]
    by (simp add: lnp alice envs)
  have c10: "post_upload rejecting_env upload_request =
     (failure ''Error uploading audio'' ''socket hang up'',
      [StorageUpload (JStr ''recordings'') (upload_path rejecting_env example_file)
         (buffer example_file) (upload_options example_file)])"
    using downstream_failures [where mreq = upload_request and env = rejecting_env and f = example_file and e = hang_up, THEN conjunct2, THEN conjunct2, THEN conjunct2, THEN conjunct2, THEN conjunct2, THEN conjunct2, THEN conjunct2, THEN conjunct2, THEN conjunct2, THEN conjunct1]
    by (simp add: up envs hang_up_def)
  have c11: "post_upload rejecting_late_env upload_request =
     (failure ''Error uploading audio'' ''socket hang up'',
      [StorageUpload (JStr ''recordings'') (upload_path rejecting_late_env example_file)
         (buffer example_file) (upload_options example_file),
       GetPublicUrl (JStr ''recordings'') (JStr (upload_path rejecting_late_env example_file))])"
    using downstream_failures [where mreq = upload_request and env = rejecting_late_env and f = example_file and r = "\<lparr>data = JObj [(''path'', JStr (upload_path rejecting_late_env example_file))], error = None\<rparr>" and e = hang_up, THEN conjunct2, THEN conjunct2, THEN conjunct2, THEN conjunct2, THEN conjunct2, THEN conjunct2, THEN conjunct2, THEN conjunct2, THEN conjunct2, THEN conjunct2, THEN conjunct1]
    by (simp add: up envs hang_up_def property_def)
  have c12: "post_transcribe rejecting_env ?tr =
     (failure ''Error transcribing audio'' ''socket hang up'',
      [TranscribeFile (buffer example_file) (deepgram_options example_file)])"
    using downstream_failures [where mreq = ?tr and env = rejecting_env and f = example_file and uid = example_uuid and e = hang_up, THEN conjunct2, THEN conjunct2, THEN conjunct2, THEN conjunct2, THEN conjunct2, THEN conjunct2, THEN conjunct2, THEN conjunct2, THEN conjunct2, THEN conjunct2, THEN conjunct2, THEN conjunct1]
    by (simp add: tr example_uuid_passes envs hang_up_def)
  have c13: "post_transcribe rejecting_late_env ?tr =
     (failure ''Error transcribing audio'' ''socket hang up'',
      [TranscribeFile (buffer example_file) (deepgram_options example_file),
       InsertTranscription (transcription_rows example_uuid (JStr ''hello world'') example_file)])"
    using downstream_failures [where mreq = ?tr and env = rejecting_late_env and f = example_file and uid = example_uuid and d = "\<lparr>result = ?hello, dg_error = None\<rparr>" and t = "JStr ''hello world''" and e = hang_up, THEN conjunct2, THEN conjunct2, THEN conjunct2, THEN conjunct2, THEN conjunct2, THEN conjunct2, THEN conjunct2, THEN conjunct2, THEN conjunct2, THEN conjunct2, THEN conjunct2, THEN conjunct2, THEN conjunct1]
    by (simp add: tr example_uuid_passes extract_hello_world js envs hang_up_def)
  have c14: "get_transcriptions rejecting_env list_request =
     (failure ''Internal server error'' ''socket hang up'', [SelectTranscriptions example_uuid])"
    using downstream_failures [where preq = list_request and env = rejecting_env and e = hang_up, THEN conjunct2, THEN conjunct2, THEN conjunct2, THEN conjunct2, THEN conjunct2, THEN conjunct2, THEN conjunct2, THEN conjunct2, THEN conjunct2, THEN conjunct2, THEN conjunct2, THEN conjunct2, THEN conjunct2, THEN conjunct1]
    by (simp add: ls example_uuid_passes envs hang_up_def)
  have c15: "post_login failing_store_env (login_request ''alice@example.org'' ''wonderland'') =
     (\<lparr>status = 400, payload = JObj [(''error'', JStr ''Invalid email or password'')]\<rparr>,
      [SelectUser (JStr ''alice@example.org'')])"
    using downstream_failures [where jreq = "login_request ''alice@example.org'' ''wonderland''"
        and env = failing_store_env
        and q = "\<lparr>data = JNull, error = Some (Error ''fetch failed'')\<rparr>"
        and e = "Error ''fetch failed''", THEN conjunct2, THEN conjunct2, THEN conjunct2, THEN conjunct2, THEN conjunct2, THEN conjunct2, THEN conjunct2, THEN conjunct2, THEN conjunct2, THEN conjunct2, THEN conjunct2, THEN conjunct2, THEN conjunct2, THEN conjunct2, THEN conjunct1]
    by (simp add: login_request_def property_def envs)
  have c16: "post_signup example_env ?bob =
     (\<lparr>status = 200, payload = JObj [(''message'', JStr ''Signup successful!''),
                                     (''user'', JNull)]\<rparr>,
      [SelectUser (JStr ''bob@example.org''), BcryptHash (JStr ''secret'') 10,
       InsertUser (user_rows (JStr ''bob@example.org'') (toy_digest ''secret'') (JStr ''Bob''))])"
    using downstream_failures [where jreq = ?bob and env = example_env
        and q = "\<lparr>data = JNull,
          error = Some (Error ''JSON object requested, multiple (or no) rows returned'')\<rparr>"
        and e = "Error ''JSON object requested, multiple (or no) rows returned''"
        and h = "toy_digest ''secret''"
        and r = "\<lparr>data = JNull, error = None\<rparr>", THEN conjunct2, THEN conjunct2, THEN conjunct2, THEN conjunct2, THEN conjunct2, THEN conjunct2, THEN conjunct2, THEN conjunct2, THEN conjunct2, THEN conjunct2, THEN conjunct2, THEN conjunct2, THEN conjunct2, THEN conjunct2, THEN conjunct2]
    by (simp add: bob envs)
  from c1 c2 c3 c4 c5 c6 c7 c8 c9 c10 c11 c12 c13 c14 c15 c16 show ?thesis
    by (intro conjI) (erule conjunct1 conjunct2 asm_rl)+
qed

text \<open>
  C2, as the specification has it, fails on \<open>/transcribe\<close>: the provider reports
  \<open>Rate limit exceeded\<close> and the \<open>details\<close> of the answer are another text. It fails on
  \<open>/login\<close> too, where the error that the lookup reports is not read and the answer is
  status 400.
\<close>

theorem downstream_failures_counterexample:
  "transcribe_file failing_deepgram_env (buffer example_file) (deepgram_options example_file)
     = Inr \<lparr>result = JNull, dg_error = Some (Error ''Rate limit exceeded'')\<rparr>
   \<and> status (fst (post_transcribe failing_deepgram_env (transcribe_request example_uuid))) = 500
   \<and> property (payload (fst (post_transcribe failing_deepgram_env
          (transcribe_request example_uuid)))) ''details'' \<noteq> JStr ''Rate limit exceeded''
   \<and> find_user failing_store_env (JStr ''alice@example.org'')
     = Inr \<lparr>data = JNull, error = Some (Error ''fetch failed'')\<rparr>
   \<and> status (fst (post_login failing_store_env
          (login_request ''alice@example.org'' ''wonderland''))) = 400"
proof (intro conjI)
  have t: "post_transcribe failing_deepgram_env (transcribe_request example_uuid) =
     (failure ''Error transcribing audio'' ''Failed to transcribe audio.'',
      [TranscribeFile (buffer example_file) (deepgram_options example_file)])"
    by (simp add: post_transcribe_def transcribe_request_def example_uuid_passes
          failing_deepgram_env_def run_defs)
  show "transcribe_file failing_deepgram_env (buffer example_file) (deepgram_options example_file)
     = Inr \<lparr>result = JNull, dg_error = Some (Error ''Rate limit exceeded'')\<rparr>"
    by (simp add: failing_deepgram_env_def)
  show "status (fst (post_transcribe failing_deepgram_env (transcribe_request example_uuid))) = 500"
    by (simp add: t failure_def)
  show "property (payload (fst (post_transcribe failing_deepgram_env
          (transcribe_request example_uuid)))) ''details'' \<noteq> JStr ''Rate limit exceeded''"
    by (simp add: t failure_def property_def)
  show "find_user failing_store_env (JStr ''alice@example.org'')
     = Inr \<lparr>data = JNull, error = Some (Error ''fetch failed'')\<rparr>"
    by (simp add: failing_store_env_def)
  show "status (fst (post_login failing_store_env
          (login_request ''alice@example.org'' ''wonderland''))) = 400"
    by (simp add: post_login_def login_request_def failing_store_env_def run_defs
          invalid_credentials_def property_def)
qed


end
